theory Spec2Isabelle
  imports Complex_Main
begin

section \<open>Data model\<close>

text \<open>
  The performance monitor exists twice in the repository: the configurable hook of
  \<^verbatim>\<open>src/unnamed/part_006\<close> and the fixed-constant hook of \<^verbatim>\<open>src/unnamed/part_007\<close>.
  Both are embedded, function by function; the definitions taken from \<^verbatim>\<open>part_007\<close> carry
  the suffix \<open>_007\<close>.

  JavaScript numbers are modelled exactly: epoch milliseconds, time ranges and the capacity
  are integers, metric values are rationals (sums and quotients are computed without
  rounding), and the one quotient of the source whose divisor can be zero yields a
  \<open>jsnum\<close>, which has the two infinities and NaN.
\<close>

datatype rating = Good | NeedsImprovement | Poor

datatype trend = Improving | Stable | Declining

text \<open>\<^verbatim>\<open>interface PerformanceMetric\<close>. The optional \<^verbatim>\<open>metadata\<close> bag of \<^verbatim>\<open>part_006\<close> is
  copied along by the object spread and read by no function; it is not a field here.\<close>

record metric =
  name :: string
  "value" :: rat
  rating :: rating
  timestamp :: int
  url :: "string option"


text \<open>\<^verbatim>\<open>interface PerformanceMonitorConfig\<close>: every field is optional.\<close>

record config =
  maxStoredMetrics :: "int option"
  enableLocalStorage :: "bool option"
  storageKey :: "string option"
  enableAnalytics :: "bool option"

definition DEFAULT_CONFIG :: config where
  "DEFAULT_CONFIG =
     \<lparr>maxStoredMetrics = Some 1000, enableLocalStorage = Some True,
      storageKey = Some ''portfolio_performance_metrics'', enableAnalytics = Some True\<rparr>"

definition override :: "'a option \<Rightarrow> 'a option \<Rightarrow> 'a option" where
  "override d c = (case c of None \<Rightarrow> d | Some v \<Rightarrow> Some v)"

text \<open>\<^verbatim>\<open>{ ...DEFAULT_CONFIG, ...config }\<close>: a field the caller gives replaces the default.\<close>

definition finalConfig :: "config \<Rightarrow> config" where
  "finalConfig c =
     \<lparr>maxStoredMetrics = override (maxStoredMetrics DEFAULT_CONFIG) (maxStoredMetrics c),
      enableLocalStorage = override (enableLocalStorage DEFAULT_CONFIG) (enableLocalStorage c),
      storageKey = override (storageKey DEFAULT_CONFIG) (storageKey c),
      enableAnalytics = override (enableAnalytics DEFAULT_CONFIG) (enableAnalytics c)\<rparr>"

definition cfg_max :: "config \<Rightarrow> int" where
  "cfg_max c = (case maxStoredMetrics (finalConfig c) of Some n \<Rightarrow> n | None \<Rightarrow> 1000)"

definition cfg_storage :: "config \<Rightarrow> bool" where
  "cfg_storage c = (case enableLocalStorage (finalConfig c) of Some b \<Rightarrow> b | None \<Rightarrow> True)"

definition cfg_key :: "config \<Rightarrow> string" where
  "cfg_key c =
     (case storageKey (finalConfig c) of Some k \<Rightarrow> k
      | None \<Rightarrow> ''portfolio_performance_metrics'')"


definition METRIC_STORAGE_KEY :: string where
  "METRIC_STORAGE_KEY = ''portfolio_performance_metrics''"

definition MAX_STORED_METRICS :: int where
  "MAX_STORED_METRICS = 1000"

subsection \<open>JavaScript primitives the hooks rely on\<close>

text \<open>\<^verbatim>\<open>xs.slice(start)\<close>: a negative start counts from the end and is clamped at the
  beginning; a start of zero (which is what \<^verbatim>\<open>-0\<close> is) keeps the whole array.\<close>

definition js_slice :: "int \<Rightarrow> 'a list \<Rightarrow> 'a list" where
  "js_slice start xs =
     (let n = int (length xs);
          k = (if start < 0 then max (n + start) 0 else min start n)
      in drop (nat k) xs)"

text \<open>\<^verbatim>\<open>Math.round\<close>: the nearest integer, a half going up.\<close>

definition js_round :: "rat \<Rightarrow> int" where
  "js_round x = \<lfloor>x + 1 / 2\<rfloor>"

text \<open>The result of a JavaScript division of two finite numbers: a zero divisor gives an
  infinity with the sign of the dividend, or NaN for \<^verbatim>\<open>0 / 0\<close>. (The divisors of the source
  are sums started at \<^verbatim>\<open>+0\<close>, so a zero divisor is never \<^verbatim>\<open>-0\<close>.)\<close>

datatype jsnum = Fin rat | PosInf | NegInf | NaN

definition js_div :: "rat \<Rightarrow> rat \<Rightarrow> jsnum" where
  "js_div a b =
     (if b \<noteq> 0 then Fin (a / b)
      else if a > 0 then PosInf
      else if a < 0 then NegInf
      else NaN)"

text \<open>\<^verbatim>\<open>Math.abs(c) > t\<close>, \<^verbatim>\<open>c < 0\<close> and \<^verbatim>\<open>c > 0\<close>; every comparison with NaN is false.\<close>

fun js_abs_gt :: "jsnum \<Rightarrow> rat \<Rightarrow> bool" where
  "js_abs_gt (Fin c) t = (\<bar>c\<bar> > t)"
| "js_abs_gt PosInf t = True"
| "js_abs_gt NegInf t = True"
| "js_abs_gt NaN t = False"


fun js_neg :: "jsnum \<Rightarrow> bool" where
  "js_neg (Fin c) = (c < 0)"
| "js_neg PosInf = False"
| "js_neg NegInf = True"
| "js_neg NaN = False"

fun js_pos :: "jsnum \<Rightarrow> bool" where
  "js_pos (Fin c) = (c > 0)"
| "js_pos PosInf = True"
| "js_pos NegInf = False"
| "js_pos NaN = False"

text \<open>One entry of \<^verbatim>\<open>interface MetricAverages\<close>; \<^verbatim>\<open>part_007\<close> has no \<^verbatim>\<open>lastUpdated\<close>.\<close>

record averages_entry =
  average :: rat
  count :: nat
  avg_rating :: rating
  avg_trend :: trend
  lastUpdated :: jsnum

record averages_entry_007 =
  average_007 :: rat
  count_007 :: nat
  avg_rating_007 :: rating
  avg_trend_007 :: trend

subsection \<open>The browser around the hook\<close>

text \<open>What \<^verbatim>\<open>JSON.parse\<close> makes of the string kept under the storage key: the empty string
  (falsy, never parsed), text that is not JSON, JSON that is not an array, or an array of
  metrics as \<^verbatim>\<open>JSON.stringify(metrics)\<close> writes it.\<close>

datatype stored = EmptyString | Unparseable | NonArray | MetricArray "metric list"

text \<open>\<^verbatim>\<open>localStorage\<close>. With \<open>disabled\<close> set every access throws (storage blocked by the
  browser's privacy settings); with \<open>full\<close> set \<^verbatim>\<open>setItem\<close> throws (quota exceeded).\<close>

record storage =
  disabled :: bool
  full :: bool
  items :: "string \<Rightarrow> stored option"

text \<open>An analytics event handed to \<^verbatim>\<open>window.gtag\<close>: label, rounded value, rating, url.\<close>

type_synonym gtag_event = "string \<times> int \<times> rating \<times> string option"

text \<open>\<^verbatim>\<open>window\<close>: the current path, the local storage, and the events received by
  \<^verbatim>\<open>window.gtag\<close> (\<open>None\<close> when no \<^verbatim>\<open>gtag\<close> is installed).\<close>

record window =
  pathname :: string
  localStorage :: storage
  gtag :: "gtag_event list option"

text \<open>The state of one mounted hook: the two \<^verbatim>\<open>useState\<close> cells, and the browser it runs in
  (\<open>None\<close> where \<^verbatim>\<open>typeof window === 'undefined'\<close>).\<close>

record monitor =
  metrics :: "metric list"
  isLoading :: bool
  win :: "window option"

datatype js_error = SecurityError | QuotaExceededError | SyntaxError | TypeError | ReferenceError


subsection \<open>Storage operations\<close>

definition getItem :: "storage \<Rightarrow> string \<Rightarrow> js_error + stored option" where
  "getItem st k = (if disabled st then Inl SecurityError else Inr (items st k))"

definition setItem :: "storage \<Rightarrow> string \<Rightarrow> stored \<Rightarrow> js_error + storage" where
  "setItem st k v =
     (if disabled st then Inl SecurityError
      else if full st then Inl QuotaExceededError
      else Inr (st\<lparr>items := (items st)(k \<mapsto> v)\<rparr>))"

definition removeItem :: "storage \<Rightarrow> string \<Rightarrow> js_error + storage" where
  "removeItem st k =
     (if disabled st then Inl SecurityError
      else Inr (st\<lparr>items := (items st)(k := None)\<rparr>))"

section \<open>The hook of part-006\<close>





text \<open>The mount effect: rehydrate from storage. Everything fallible sits in the
  \<^verbatim>\<open>try\<close> block, whose outcome is \<open>tryLoad\<close>: the exception it ends with, or the array to
  install (\<open>None\<close> when \<^verbatim>\<open>setMetrics\<close> is not reached).\<close>

definition tryLoad :: "config \<Rightarrow> storage \<Rightarrow> js_error + metric list option" where
  "tryLoad c st =
     (case getItem st (cfg_key c) of
        Inl e \<Rightarrow> Inl e
      | Inr None \<Rightarrow> Inr None
      | Inr (Some EmptyString) \<Rightarrow> Inr None
      | Inr (Some Unparseable) \<Rightarrow> Inl SyntaxError
      | Inr (Some NonArray) \<Rightarrow> Inr None
      | Inr (Some (MetricArray parsedMetrics)) \<Rightarrow>
          Inr (Some (js_slice (- cfg_max c) parsedMetrics)))"

definition loadEffect :: "config \<Rightarrow> monitor \<Rightarrow> monitor" where
  "loadEffect c s =
     (case win s of
        None \<Rightarrow> s\<lparr>isLoading := False\<rparr>
      | Some w \<Rightarrow>
          if \<not> cfg_storage c then s\<lparr>isLoading := False\<rparr>
          else (case tryLoad c (localStorage w) of
                  Inl e \<Rightarrow> s\<lparr>isLoading := False\<rparr>
                | Inr None \<Rightarrow> s\<lparr>isLoading := False\<rparr>
                | Inr (Some ms) \<Rightarrow> s\<lparr>metrics := ms, isLoading := False\<rparr>))"

text \<open>The effect that runs when \<^verbatim>\<open>metrics\<close> changed: mirror the store to storage; the
  \<^verbatim>\<open>catch\<close> only warns.\<close>

definition saveEffect :: "config \<Rightarrow> monitor \<Rightarrow> monitor" where
  "saveEffect c s =
     (case win s of
        None \<Rightarrow> s
      | Some w \<Rightarrow>
          if \<not> isLoading s \<and> length (metrics s) > 0 \<and> cfg_storage c then
            (case setItem (localStorage w) (cfg_key c) (MetricArray (metrics s)) of
               Inl e \<Rightarrow> s
             | Inr st \<Rightarrow> s\<lparr>win := Some (w\<lparr>localStorage := st\<rparr>)\<rparr>)
          else s)"

text \<open>\<^verbatim>\<open>getMetrics(metricName?, timeRange?)\<close> at clock reading \<open>now\<close>. It reads
  \<^verbatim>\<open>metrics\<close> and calls no setter, so it is a function from the state to the returned
  array. The guards \<^verbatim>\<open>if (metricName)\<close> and \<^verbatim>\<open>if (timeRange)\<close> are truthiness tests: the
  empty name and the zero range count as absent.\<close>

definition getMetrics :: "monitor \<Rightarrow> string option \<Rightarrow> int option \<Rightarrow> int \<Rightarrow> metric list" where
  "getMetrics s metricName timeRange now =
     (let filtered = metrics s;
          filtered = (case metricName of
                        None \<Rightarrow> filtered
                      | Some n \<Rightarrow> if n \<noteq> [] then filter (\<lambda>m. name m = n) filtered
                                 else filtered);
          filtered = (case timeRange of
                        None \<Rightarrow> filtered
                      | Some r \<Rightarrow> if r \<noteq> 0
                                 then (let cutoff = now - r
                                       in filter (\<lambda>m. timestamp m > cutoff) filtered)
                                 else filtered)
      in filtered)"

text \<open>The grouping accumulator of \<^verbatim>\<open>getAverages\<close> is a plain object literal \<^verbatim>\<open>{}\<close>, so a
  lookup \<^verbatim>\<open>acc[metric.name]\<close> also finds what the object inherits from
  \<^verbatim>\<open>Object.prototype\<close>. For a metric with one of these names the test
  \<^verbatim>\<open>!acc[metric.name]\<close> is false, no array is created, and \<^verbatim>\<open>acc[metric.name].push\<close> is
  not a function: the call throws a TypeError.\<close>

definition object_prototype_keys :: "string list" where
  "object_prototype_keys =
     [''constructor'', ''__defineGetter__'', ''__defineSetter__'', ''hasOwnProperty'',
      ''__lookupGetter__'', ''__lookupSetter__'', ''isPrototypeOf'',
      ''propertyIsEnumerable'', ''toString'', ''valueOf'', ''__proto__'',
      ''toLocaleString'']"

text \<open>The grouping object as an association list in order of first insertion.\<close>

type_synonym groups = "(string \<times> metric list) list"

definition push_to :: "string \<Rightarrow> metric \<Rightarrow> groups \<Rightarrow> groups" where
  "push_to n m acc = map (\<lambda>(k, l). if k = n then (k, l @ [m]) else (k, l)) acc"

definition group_step :: "groups \<Rightarrow> metric \<Rightarrow> js_error + groups" where
  "group_step acc m =
     (if name m \<in> set object_prototype_keys then Inl TypeError
      else (case map_of acc (name m) of
              None \<Rightarrow> Inr (push_to (name m) m (acc @ [(name m, [])]))
            | Some l \<Rightarrow> Inr (push_to (name m) m acc)))"

fun group_by_name :: "groups \<Rightarrow> metric list \<Rightarrow> js_error + groups" where
  "group_by_name acc [] = Inr acc"
| "group_by_name acc (m # ms) =
     (case group_step acc m of
        Inl e \<Rightarrow> Inl e
      | Inr acc' \<Rightarrow> group_by_name acc' ms)"

text \<open>\<^verbatim>\<open>Math.max(...xs)\<close>; of no argument it is \<^verbatim>\<open>-Infinity\<close>.\<close>

fun Math_max :: "int list \<Rightarrow> jsnum" where
  "Math_max [] = NegInf"
| "Math_max (t # ts) = Fin (of_int (fold max ts t))"

text \<open>The steps of the second \<^verbatim>\<open>reduce\<close> of \<^verbatim>\<open>getAverages\<close>, for one
  \<^verbatim>\<open>[name, metricList]\<close> entry.\<close>

definition entry_average :: "metric list \<Rightarrow> rat" where
  "entry_average metricList =
     (let values = map value metricList
      in fold (\<lambda>val sum. sum + val) values 0 / of_nat (length values))"

definition entry_rating :: "metric list \<Rightarrow> rating" where
  "entry_rating metricList =
     (let recentMetrics = js_slice (- 5) metricList;
          ratings = map rating recentMetrics;
          goodCount = length (filter (\<lambda>r. r = Good) ratings)
      in if (of_nat goodCount :: rat) > of_nat (length ratings) / 2 then Good
         else if goodCount > 0 then NeedsImprovement
         else Poor)"

definition half_avg :: "metric list \<Rightarrow> rat" where
  "half_avg half = fold (\<lambda>m sum. sum + value m) half 0 / of_nat (length half)"

definition entry_change :: "metric list \<Rightarrow> jsnum" where
  "entry_change metricList =
     (let midPoint = length metricList div 2;
          firstHalf = take midPoint metricList;
          secondHalf = js_slice (int midPoint) metricList;
          firstAvg = half_avg firstHalf;
          secondAvg = half_avg secondHalf
      in js_div (secondAvg - firstAvg) firstAvg)"

definition lower_is_better :: "string list" where
  "lower_is_better = [''LCP'', ''CLS'', ''FID'', ''TTFB'']"

definition entry_trend :: "string \<Rightarrow> metric list \<Rightarrow> trend" where
  "entry_trend n metricList =
     (if length metricList \<ge> 10 then
        (let change = entry_change metricList
         in if js_abs_gt change (1 / 10) then
              (let isLowerBetter = (n \<in> set lower_is_better)
               in if isLowerBetter
                  then (if js_neg change then Improving else Declining)
                  else (if js_pos change then Improving else Declining))
            else Stable)
      else Stable)"

definition entry :: "string \<Rightarrow> metric list \<Rightarrow> averages_entry" where
  "entry n metricList =
     \<lparr>average = entry_average metricList,
      count = length metricList,
      avg_rating = entry_rating metricList,
      avg_trend = entry_trend n metricList,
      lastUpdated = Math_max (map timestamp metricList)\<rparr>"

text \<open>\<^verbatim>\<open>getAverages(timeRange?)\<close>: the thrown TypeError, or the resulting object as an
  association list (looked up with \<open>map_of\<close>; the order in which JavaScript enumerates
  the keys plays no part).\<close>

definition getAverages ::
  "monitor \<Rightarrow> int option \<Rightarrow> int \<Rightarrow> js_error + (string \<times> averages_entry) list" where
  "getAverages s timeRange now =
     (let relevantMetrics = getMetrics s None timeRange now
      in case group_by_name [] relevantMetrics of
           Inl e \<Rightarrow> Inl e
         | Inr grouped \<Rightarrow> Inr (map (\<lambda>(n, metricList). (n, entry n metricList)) grouped))"

definition coreVitals :: "string list" where
  "coreVitals = [''LCP'', ''FID'', ''CLS'']"

definition metricScore :: "rating \<Rightarrow> int" where
  "metricScore r = (case r of Good \<Rightarrow> 100 | NeedsImprovement \<Rightarrow> 75 | Poor \<Rightarrow> 25)"

text \<open>The body of the \<^verbatim>\<open>forEach\<close> of \<^verbatim>\<open>getPerformanceScore\<close>, on the pair
  \<^verbatim>\<open>(score, count)\<close>.\<close>

definition score_step :: "metric list \<Rightarrow> string \<Rightarrow> int \<times> nat \<Rightarrow> int \<times> nat" where
  "score_step recentMetrics vital acc =
     (let vitalMetrics = filter (\<lambda>m. name m = vital) recentMetrics
      in if length vitalMetrics > 0
         then (let latestMetric = vitalMetrics ! (length vitalMetrics - 1)
               in (fst acc + metricScore (rating latestMetric), Suc (snd acc)))
         else acc)"

text \<open>\<^verbatim>\<open>getPerformanceScore()\<close>; \<open>None\<close> is the \<^verbatim>\<open>null\<close> of the source.\<close>

definition getPerformanceScore :: "monitor \<Rightarrow> int \<Rightarrow> int option" where
  "getPerformanceScore s now =
     (let recentMetrics = getMetrics s None (Some (24 * 60 * 60 * 1000)) now;
          (score, count) = fold (score_step recentMetrics) coreVitals (0, 0)
      in if count > 0 then Some (js_round (of_int score / of_nat count)) else None)"

text \<open>\<^verbatim>\<open>clearMetrics()\<close>: \<^verbatim>\<open>setMetrics([])\<close>, then \<^verbatim>\<open>localStorage.removeItem\<close> outside any
  \<^verbatim>\<open>try\<close>. The result is the exception that reaches the caller, if any, and the state
  left behind (the state update is queued before the storage call).\<close>

definition clearMetrics :: "config \<Rightarrow> monitor \<Rightarrow> js_error option \<times> monitor" where
  "clearMetrics c s =
     (let s1 = s\<lparr>metrics := []\<rparr>
      in case win s1 of
           None \<Rightarrow> (None, s1)
         | Some w \<Rightarrow>
             if cfg_storage c then
               (case removeItem (localStorage w) (cfg_key c) of
                  Inl e \<Rightarrow> (Some e, s1)
                | Inr st \<Rightarrow> (None, s1\<lparr>win := Some (w\<lparr>localStorage := st\<rparr>)\<rparr>))
             else (None, s1))"

text \<open>What is persisted under a key: nothing where there is no browser.\<close>

definition persisted :: "monitor \<Rightarrow> string \<Rightarrow> stored option" where
  "persisted s k = (case win s of None \<Rightarrow> None | Some w \<Rightarrow> items (localStorage w) k)"

section \<open>The hook of part-007\<close>



text \<open>The \<^verbatim>\<open>try\<close> block of the mount effect. There is no \<^verbatim>\<open>Array.isArray\<close> test here:
  \<^verbatim>\<open>parsedMetrics.slice\<close> on a parsed object, number, boolean or null is a TypeError. (A
  stored JSON string, which has a \<^verbatim>\<open>slice\<close> of its own, is outside \<open>stored\<close>.)\<close>

definition tryLoad_007 :: "window option \<Rightarrow> js_error + metric list option" where
  "tryLoad_007 w =
     (case w of
        None \<Rightarrow> Inl ReferenceError
      | Some w' \<Rightarrow>
          (case getItem (localStorage w') METRIC_STORAGE_KEY of
             Inl e \<Rightarrow> Inl e
           | Inr None \<Rightarrow> Inr None
           | Inr (Some EmptyString) \<Rightarrow> Inr None
           | Inr (Some Unparseable) \<Rightarrow> Inl SyntaxError
           | Inr (Some NonArray) \<Rightarrow> Inl TypeError
           | Inr (Some (MetricArray parsedMetrics)) \<Rightarrow>
               Inr (Some (js_slice (- MAX_STORED_METRICS) parsedMetrics))))"

definition loadEffect_007 :: "monitor \<Rightarrow> monitor" where
  "loadEffect_007 s =
     (case tryLoad_007 (win s) of
        Inl e \<Rightarrow> s\<lparr>isLoading := False\<rparr>
      | Inr None \<Rightarrow> s\<lparr>isLoading := False\<rparr>
      | Inr (Some ms) \<Rightarrow> s\<lparr>metrics := ms, isLoading := False\<rparr>)"

definition saveEffect_007 :: "monitor \<Rightarrow> monitor" where
  "saveEffect_007 s =
     (if \<not> isLoading s \<and> length (metrics s) > 0 then
        (case win s of
           None \<Rightarrow> s
         | Some w \<Rightarrow>
             (case setItem (localStorage w) METRIC_STORAGE_KEY (MetricArray (metrics s)) of
                Inl e \<Rightarrow> s
              | Inr st \<Rightarrow> s\<lparr>win := Some (w\<lparr>localStorage := st\<rparr>)\<rparr>))
      else s)"

definition getMetrics_007 ::
  "monitor \<Rightarrow> string option \<Rightarrow> int option \<Rightarrow> int \<Rightarrow> metric list" where
  "getMetrics_007 s metricName timeRange now =
     (let filtered = metrics s;
          filtered = (case metricName of
                        None \<Rightarrow> filtered
                      | Some n \<Rightarrow> if n \<noteq> [] then filter (\<lambda>m. name m = n) filtered
                                 else filtered);
          filtered = (case timeRange of
                        None \<Rightarrow> filtered
                      | Some r \<Rightarrow> if r \<noteq> 0
                                 then (let cutoff = now - r
                                       in filter (\<lambda>m. timestamp m > cutoff) filtered)
                                 else filtered)
      in filtered)"

definition group_step_007 :: "groups \<Rightarrow> metric \<Rightarrow> js_error + groups" where
  "group_step_007 acc m =
     (if name m \<in> set object_prototype_keys then Inl TypeError
      else (case map_of acc (name m) of
              None \<Rightarrow> Inr (push_to (name m) m (acc @ [(name m, [])]))
            | Some l \<Rightarrow> Inr (push_to (name m) m acc)))"

fun group_by_name_007 :: "groups \<Rightarrow> metric list \<Rightarrow> js_error + groups" where
  "group_by_name_007 acc [] = Inr acc"
| "group_by_name_007 acc (m # ms) =
     (case group_step_007 acc m of
        Inl e \<Rightarrow> Inl e
      | Inr acc' \<Rightarrow> group_by_name_007 acc' ms)"

definition entry_average_007 :: "metric list \<Rightarrow> rat" where
  "entry_average_007 metricList =
     (let values = map value metricList
      in fold (\<lambda>val sum. sum + val) values 0 / of_nat (length values))"

definition entry_rating_007 :: "metric list \<Rightarrow> rating" where
  "entry_rating_007 metricList =
     (let recentMetrics = js_slice (- 5) metricList;
          ratings = map rating recentMetrics;
          goodCount = length (filter (\<lambda>r. r = Good) ratings)
      in if (of_nat goodCount :: rat) > of_nat (length ratings) / 2 then Good
         else if goodCount > 0 then NeedsImprovement
         else Poor)"

definition entry_trend_007 :: "string \<Rightarrow> metric list \<Rightarrow> trend" where
  "entry_trend_007 n metricList =
     (if length metricList \<ge> 10 then
        (let midPoint = length metricList div 2;
             firstHalf = take midPoint metricList;
             secondHalf = js_slice (int midPoint) metricList;
             firstAvg = fold (\<lambda>m sum. sum + value m) firstHalf 0 / of_nat (length firstHalf);
             secondAvg = fold (\<lambda>m sum. sum + value m) secondHalf 0
                           / of_nat (length secondHalf);
             change = js_div (secondAvg - firstAvg) firstAvg
         in if js_abs_gt change (1 / 10) then
              (let isLowerBetter = (n \<in> set [''LCP'', ''CLS'', ''FID'', ''TTFB''])
               in if isLowerBetter
                  then (if js_neg change then Improving else Declining)
                  else (if js_pos change then Improving else Declining))
            else Stable)
      else Stable)"

definition entry_007 :: "string \<Rightarrow> metric list \<Rightarrow> averages_entry_007" where
  "entry_007 n metricList =
     \<lparr>average_007 = entry_average_007 metricList,
      count_007 = length metricList,
      avg_rating_007 = entry_rating_007 metricList,
      avg_trend_007 = entry_trend_007 n metricList\<rparr>"

definition getAverages_007 ::
  "monitor \<Rightarrow> int option \<Rightarrow> int \<Rightarrow> js_error + (string \<times> averages_entry_007) list" where
  "getAverages_007 s timeRange now =
     (let relevantMetrics = getMetrics_007 s None timeRange now
      in case group_by_name_007 [] relevantMetrics of
           Inl e \<Rightarrow> Inl e
         | Inr grouped \<Rightarrow> Inr (map (\<lambda>(n, metricList). (n, entry_007 n metricList)) grouped))"

definition score_step_007 :: "metric list \<Rightarrow> string \<Rightarrow> int \<times> nat \<Rightarrow> int \<times> nat" where
  "score_step_007 recentMetrics vital acc =
     (let vitalMetrics = filter (\<lambda>m. name m = vital) recentMetrics
      in if length vitalMetrics > 0
         then (let latestMetric = vitalMetrics ! (length vitalMetrics - 1);
                   metricScore = (case rating latestMetric of
                                    Good \<Rightarrow> 100
                                  | NeedsImprovement \<Rightarrow> 75
                                  | Poor \<Rightarrow> 25)
               in (fst acc + metricScore, Suc (snd acc)))
         else acc)"

definition getPerformanceScore_007 :: "monitor \<Rightarrow> int \<Rightarrow> int option" where
  "getPerformanceScore_007 s now =
     (let recentMetrics = getMetrics_007 s None (Some (24 * 60 * 60 * 1000)) now;
          (score, count) = fold (score_step_007 recentMetrics) [''LCP'', ''FID'', ''CLS''] (0, 0)
      in if count > 0 then Some (js_round (of_int score / of_nat count)) else None)"

definition clearMetrics_007 :: "monitor \<Rightarrow> js_error option \<times> monitor" where
  "clearMetrics_007 s =
     (let s1 = s\<lparr>metrics := []\<rparr>
      in case win s1 of
           None \<Rightarrow> (Some ReferenceError, s1)
         | Some w \<Rightarrow>
             (case removeItem (localStorage w) METRIC_STORAGE_KEY of
                Inl e \<Rightarrow> (Some e, s1)
              | Inr st \<Rightarrow> (None, s1\<lparr>win := Some (w\<lparr>localStorage := st\<rparr>)\<rparr>)))"

section \<open>Inputs and auxiliary notions for the properties\<close>


text \<open>The hook called without arguments, \<^verbatim>\<open>usePerformanceMonitor()\<close>.\<close>

definition cfg0 :: config where
  "cfg0 = \<lparr>maxStoredMetrics = None, enableLocalStorage = None, storageKey = None,
            enableAnalytics = None\<rparr>"


text \<open>A hook state without a browser holding the given metrics, loading finished.\<close>

definition store_of :: "metric list \<Rightarrow> monitor" where
  "store_of ms = \<lparr>metrics = ms, isLoading = False, win = None\<rparr>"

definition mk :: "string \<Rightarrow> rat \<Rightarrow> rating \<Rightarrow> int \<Rightarrow> metric" where
  "mk n v r t = \<lparr>name = n, value = v, rating = r, timestamp = t, url = None\<rparr>"





text \<open>Five LCP readings rated good, good, poor, poor, poor.\<close>

definition ggppp :: "metric list" where
  "ggppp = [mk ''LCP'' 1000 Good 1, mk ''LCP'' 1100 Good 2, mk ''LCP'' 5000 Poor 3,
            mk ''LCP'' 5100 Poor 4, mk ''LCP'' 5200 Poor 5]"


text \<open>A store with seven LCP readings and one CLS reading in between.\<close>

definition mixed :: "metric list" where
  "mixed = [mk ''LCP'' 4100 Poor 1, mk ''LCP'' 4200 Poor 2, mk ''CLS'' (1 / 20) Good 3,
            mk ''LCP'' 2000 Good 4, mk ''LCP'' 4300 Poor 5, mk ''LCP'' 2100 Good 6,
            mk ''LCP'' 2200 Good 7, mk ''LCP'' 4400 Poor 8]"

text \<open>The metrics of the last 24 hours, as \<^verbatim>\<open>getPerformanceScore\<close> queries them.\<close>

definition last_day :: "monitor \<Rightarrow> int \<Rightarrow> metric list" where
  "last_day s now = getMetrics s None (Some 86400000) now"

text \<open>Whether a name occurs in a list of metrics, and the rating of its last occurrence.\<close>

definition present :: "metric list \<Rightarrow> string \<Rightarrow> bool" where
  "present ms v = (\<exists>m \<in> set ms. name m = v)"

definition latest_rating :: "metric list \<Rightarrow> string \<Rightarrow> rating" where
  "latest_rating ms v = rating (last (filter (\<lambda>m. name m = v) ms))"

text \<open>The three score values, by rating.\<close>

definition rating_score :: "rating \<Rightarrow> int" where
  "rating_score r = (if r = Good then 100 else if r = NeedsImprovement then 75 else 25)"

text \<open>A store with a good LCP, a poor FID, an older good FID and a TTFB reading, all within
  the day before clock reading \<open>90000000\<close>, and a CLS reading older than that.\<close>

definition vitals :: "metric list" where
  "vitals = [mk ''CLS'' (1 / 2) Poor 1000, mk ''FID'' 50 Good 80000000,
             mk ''LCP'' 2000 Good 80000001, mk ''TTFB'' 900 NeedsImprovement 80000002,
             mk ''FID'' 400 Poor 80000003]"


text \<open>What the two hooks' entries have in common: \<^verbatim>\<open>part_006\<close>'s entry without its
  \<^verbatim>\<open>lastUpdated\<close>.\<close>

definition common :: "averages_entry \<Rightarrow> averages_entry_007" where
  "common e = \<lparr>average_007 = average e, count_007 = count e, avg_rating_007 = avg_rating e,
               avg_trend_007 = avg_trend e\<rparr>"

text \<open>A browser whose storage is blocked, and one whose working storage holds an earlier
  copy of the store under the default key.\<close>

definition blocked :: window where
  "blocked = \<lparr>pathname = ''/'',
               localStorage = \<lparr>disabled = True, full = False, items = (\<lambda>k. None)\<rparr>,
               gtag = None\<rparr>"

definition working :: window where
  "working = \<lparr>pathname = ''/'',
               localStorage = \<lparr>disabled = False, full = False,
                  items = (\<lambda>k. if k = ''portfolio_performance_metrics''
                               then Some (MetricArray ggppp) else None)\<rparr>,
               gtag = None\<rparr>"

definition mounted :: "window \<Rightarrow> metric list \<Rightarrow> monitor" where
  "mounted w ms = \<lparr>metrics = ms, isLoading = False, win = Some w\<rparr>"

section \<open>Properties\<close>

subsection \<open>The bounded store\<close>


lemma js_slice_zero: "js_slice 0 xs = xs"
  by (simp add: js_slice_def)









subsection \<open>Grouping by name\<close>


lemma map_of_snoc_fresh:
  "map_of acc n = None \<Longrightarrow> map_of (acc @ [(n, v)]) k = (if k = n then Some v else map_of acc k)"
  by (induction acc) (auto split: if_splits)



lemma group_by_name_throws:
  "(\<exists>e. group_by_name acc ms = Inl e) \<longleftrightarrow> (\<exists>m \<in> set ms. name m \<in> set object_prototype_keys)"
proof (induction ms arbitrary: acc)
  case Nil
  then show ?case by simp
next
  case (Cons m ms)
  show ?case
  proof (cases "name m \<in> set object_prototype_keys")
    case True
    then show ?thesis by (simp add: group_step_def)
  next
    case False
    then obtain acc' where "group_step acc m = Inr acc'"
      by (cases "map_of acc (name m)") (auto simp: group_step_def)
    with False Cons.IH[of acc'] show ?thesis by simp
  qed
qed



subsection \<open>The two hooks compute with the same steps\<close>

lemma getMetrics_007_eq: "getMetrics_007 s n r now = getMetrics s n r now"
  by (simp add: getMetrics_007_def getMetrics_def)

lemma group_step_007_eq: "group_step_007 acc m = group_step acc m"
  by (simp add: group_step_007_def group_step_def)

lemma group_by_name_007_eq: "group_by_name_007 acc ms = group_by_name acc ms"
  by (induction ms arbitrary: acc) (auto simp: group_step_007_eq split: sum.splits)

lemma entry_average_007_eq: "entry_average_007 l = entry_average l"
  by (simp add: entry_average_007_def entry_average_def)

lemma entry_rating_007_eq: "entry_rating_007 l = entry_rating l"
  by (simp add: entry_rating_007_def entry_rating_def)

lemma entry_trend_007_eq: "entry_trend_007 n l = entry_trend n l"
  by (simp add: entry_trend_007_def entry_trend_def entry_change_def half_avg_def
      lower_is_better_def Let_def)

lemma score_step_007_eq: "score_step_007 ms v acc = score_step ms v acc"
  by (cases "rating (filter (\<lambda>m. name m = v) ms ! (length (filter (\<lambda>m. name m = v) ms) - 1))")
     (simp_all add: score_step_007_def score_step_def metricScore_def Let_def)







subsection \<open>Claims about the store\<close>




text \<open>
  \<^bold>\<open>C2\<close>. \<^verbatim>\<open>getMetrics\<close> with a non-empty name returns exactly the subsequence
  of the store whose name equals it; with no name and a non-zero range \<open>r\<close> it returns exactly
  the subsequence with \<open>timestamp > now - r\<close>, strictly: a metric stamped exactly
  \<open>now - r\<close> is left out; with both it applies both filters. The same holds for the hook
  of part-007. \<^verbatim>\<open>getMetrics\<close> only reads the state: the model gives it no state to return.
\<close>

theorem getMetrics_filters:
  "(n \<noteq> [] \<longrightarrow> getMetrics s (Some n) None now = filter (\<lambda>m. name m = n) (metrics s))
   \<and> (r \<noteq> 0 \<longrightarrow> getMetrics s None (Some r) now
                     = filter (\<lambda>m. timestamp m > now - r) (metrics s))
   \<and> (n \<noteq> [] \<and> r \<noteq> 0 \<longrightarrow> getMetrics s (Some n) (Some r) now
                     = filter (\<lambda>m. name m = n \<and> timestamp m > now - r) (metrics s))
   \<and> (r \<noteq> 0 \<longrightarrow> (\<forall>m \<in> set (metrics s). timestamp m = now - r
                     \<longrightarrow> m \<notin> set (getMetrics s None (Some r) now)))
   \<and> getMetrics_007 s (Some n) (Some r) now = getMetrics s (Some n) (Some r) now
   \<and> getMetrics_007 s (Some n) None now = getMetrics s (Some n) None now
   \<and> getMetrics_007 s None (Some r) now = getMetrics s None (Some r) now"
  by (auto simp: getMetrics_def getMetrics_007_eq Let_def conj_commute)

theorem getMetrics_filters_witness:
  "''LCP'' \<noteq> [] \<and> (1000::int) \<noteq> 0
   \<and> mk ''CLS'' 3 Poor 4000 \<in> set (metrics (store_of
         [mk ''LCP'' 1 Good 3000, mk ''CLS'' 3 Poor 4000, mk ''LCP'' 2 Good 4500]))
   \<and> timestamp (mk ''CLS'' 3 Poor 4000) = 5000 - 1000
   \<and> getMetrics (store_of [mk ''LCP'' 1 Good 3000, mk ''CLS'' 3 Poor 4000, mk ''LCP'' 2 Good 4500])
        (Some ''LCP'') None 5000
       = [mk ''LCP'' 1 Good 3000, mk ''LCP'' 2 Good 4500]
   \<and> getMetrics (store_of [mk ''LCP'' 1 Good 3000, mk ''CLS'' 3 Poor 4000, mk ''LCP'' 2 Good 4500])
        None (Some 1000) 5000
       = [mk ''LCP'' 2 Good 4500]
   \<and> getMetrics (store_of [mk ''LCP'' 1 Good 3000, mk ''CLS'' 3 Poor 4000, mk ''LCP'' 2 Good 4500])
        (Some ''LCP'') (Some 1000) 5000
       = [mk ''LCP'' 2 Good 4500]"
proof -
  let ?s = "store_of [mk ''LCP'' 1 Good 3000, mk ''CLS'' 3 Poor 4000, mk ''LCP'' 2 Good 4500]"
  note th = getMetrics_filters[of "''LCP''" ?s 5000 1000]
  have 1: "getMetrics ?s (Some ''LCP'') None 5000 = filter (\<lambda>m. name m = ''LCP'') (metrics ?s)"
    using th by simp
  have 2: "getMetrics ?s None (Some 1000) 5000
             = filter (\<lambda>m. timestamp m > 5000 - 1000) (metrics ?s)"
    using th by simp
  have 3: "getMetrics ?s (Some ''LCP'') (Some 1000) 5000
             = filter (\<lambda>m. name m = ''LCP'' \<and> timestamp m > 5000 - 1000) (metrics ?s)"
    using th by simp
  show ?thesis
    unfolding 1 2 3 by (simp add: store_of_def mk_def)
qed

text \<open>The specification includes a metric stamped exactly \<open>now - w\<close>; the source compares
  with \<^verbatim>\<open>>\<close> and leaves it out.\<close>

theorem getMetrics_boundary_counterexample:
  "getMetrics (store_of [mk ''LCP'' 1 Good 4000]) None (Some 1000) 5000
     \<noteq> filter (\<lambda>m. timestamp m \<ge> 5000 - 1000) (metrics (store_of [mk ''LCP'' 1 Good 4000]))"
  by (simp add: getMetrics_def store_of_def mk_def)

subsection \<open>What one entry of the averages holds\<close>











lemma getAverages_ok:
  assumes "\<forall>m \<in> set (getMetrics s None tr now). name m \<notin> set object_prototype_keys"
  shows "\<exists>avgs. getAverages s tr now = Inr avgs"
proof -
  from assms group_by_name_throws[of "[]" "getMetrics s None tr now"]
  obtain g where "group_by_name [] (getMetrics s None tr now) = Inr g"
    by (cases "group_by_name [] (getMetrics s None tr now)") auto
  then show ?thesis by (simp add: getAverages_def)
qed

subsection \<open>Claims about the aggregates\<close>











subsection \<open>The performance score\<close>

lemma score_step_char:
  "score_step ms v acc
     = (if present ms v then (fst acc + rating_score (latest_rating ms v), Suc (snd acc))
        else acc)"
proof (cases "filter (\<lambda>m. name m = v) ms = []")
  case True
  then have "\<not> present ms v" by (auto simp: present_def filter_empty_conv)
  with True show ?thesis by (simp add: score_step_def)
next
  case False
  then have p: "present ms v" by (auto simp: present_def filter_empty_conv)
  have "metricScore r = rating_score r" for r
    by (cases r) (simp_all add: metricScore_def rating_score_def)
  with False p show ?thesis
    by (simp add: score_step_def Let_def latest_rating_def last_conv_nth)
qed

lemma getPerformanceScore_char:
  "getPerformanceScore s now
     = (let present3 = filter (present (last_day s now)) [''LCP'', ''FID'', ''CLS''];
            scores = map (\<lambda>v. rating_score (latest_rating (last_day s now) v)) present3
        in if present3 = [] then None
           else Some (js_round (of_int (sum_list scores) / of_nat (length scores))))"
  by (simp add: getPerformanceScore_def coreVitals_def score_step_char last_day_def Let_def
      add.assoc)

lemma js_round_nearest: "\<bar>of_int (js_round x) - x\<bar> \<le> 1 / 2"
  unfolding js_round_def by linarith

lemma present_core_filter:
  "v \<in> set coreVitals \<Longrightarrow>
     filter (\<lambda>m. name m = v) (filter (\<lambda>m. name m \<in> set coreVitals) ms)
       = filter (\<lambda>m. name m = v) ms"
  by (induction ms) auto

lemma getPerformanceScore_007_eq: "getPerformanceScore_007 s now = getPerformanceScore s now"
  by (simp add: getPerformanceScore_007_def getPerformanceScore_def getMetrics_007_eq
      score_step_007_eq coreVitals_def)

lemma last_day_core:
  "last_day (s\<lparr>metrics := filter (\<lambda>m. name m \<in> set coreVitals) (metrics s)\<rparr>) now
     = filter (\<lambda>m. name m \<in> set coreVitals) (last_day s now)"
  by (simp add: last_day_def getMetrics_def conj_commute)

lemma present_core:
  "v \<in> set coreVitals \<Longrightarrow>
     present (filter (\<lambda>m. name m \<in> set coreVitals) ms) v = present ms v"
  by (auto simp: present_def)

lemma latest_rating_core:
  "v \<in> set coreVitals \<Longrightarrow>
     latest_rating (filter (\<lambda>m. name m \<in> set coreVitals) ms) v = latest_rating ms v"
  by (simp only: latest_rating_def present_core_filter)

lemma getPerformanceScore_core:
  "getPerformanceScore
     (s\<lparr>metrics := filter (\<lambda>m. name m \<in> set coreVitals) (metrics s)\<rparr>) now
     = getPerformanceScore s now"
proof -
  have m: "''LCP'' \<in> set coreVitals" "''FID'' \<in> set coreVitals" "''CLS'' \<in> set coreVitals"
    by (simp_all add: coreVitals_def)
  show ?thesis
    unfolding getPerformanceScore_char last_day_core
    by (simp add: m[THEN present_core] m[THEN latest_rating_core])
qed

text \<open>
  \<^bold>\<open>C6\<close>. \<^verbatim>\<open>getPerformanceScore\<close> looks at the metrics of the last 24 hours named LCP,
  FID and CLS only (dropping every other metric from the store does not change its result);
  for each of the three names present there it takes the rating of the last such metric,
  scored 100 for good, 75 for needs-improvement and 25 for poor, and returns the mean of
  these scores rounded to the nearest integer (at most one half away from the mean); with
  none of the three present it returns \<^verbatim>\<open>null\<close>. With only LCP (good) and FID (poor)
  present it returns 63. The hook of part-007 returns the same.
\<close>

theorem getPerformanceScore_mean:
  "(let present3 = filter (present (last_day s now)) [''LCP'', ''FID'', ''CLS''];
        scores = map (\<lambda>v. rating_score (latest_rating (last_day s now) v)) present3
    in getPerformanceScore s now
         = (if present3 = [] then None
            else Some (js_round (of_int (sum_list scores) / of_nat (length scores)))))
   \<and> rating_score Good = 100 \<and> rating_score NeedsImprovement = 75 \<and> rating_score Poor = 25
   \<and> \<bar>of_int (js_round x) - x\<bar> \<le> 1 / 2
   \<and> getPerformanceScore
        (s\<lparr>metrics := filter (\<lambda>m. name m \<in> set coreVitals) (metrics s)\<rparr>) now
       = getPerformanceScore s now
   \<and> (present (last_day s now) ''LCP'' \<and> latest_rating (last_day s now) ''LCP'' = Good
        \<and> present (last_day s now) ''FID'' \<and> latest_rating (last_day s now) ''FID'' = Poor
        \<and> \<not> present (last_day s now) ''CLS''
        \<longrightarrow> getPerformanceScore s now = Some 63)
   \<and> getPerformanceScore_007 s now = getPerformanceScore s now"
proof -
  have "getPerformanceScore s now = Some 63"
    if "present (last_day s now) ''LCP''" "latest_rating (last_day s now) ''LCP'' = Good"
      "present (last_day s now) ''FID''" "latest_rating (last_day s now) ''FID'' = Poor"
      "\<not> present (last_day s now) ''CLS''"
    using that by (simp add: getPerformanceScore_char rating_score_def js_round_def)
  then show ?thesis
    using getPerformanceScore_char[of s now] js_round_nearest[of x]
      getPerformanceScore_core[of s now] getPerformanceScore_007_eq[of s now]
    by (simp add: rating_score_def)
qed

theorem getPerformanceScore_mean_witness:
  "present (last_day (store_of vitals) 90000000) ''LCP''
   \<and> latest_rating (last_day (store_of vitals) 90000000) ''LCP'' = Good
   \<and> present (last_day (store_of vitals) 90000000) ''FID''
   \<and> latest_rating (last_day (store_of vitals) 90000000) ''FID'' = Poor
   \<and> \<not> present (last_day (store_of vitals) 90000000) ''CLS''
   \<and> getPerformanceScore (store_of vitals) 90000000 = Some 63"
proof -
  have d: "last_day (store_of vitals) 90000000
             = [mk ''FID'' 50 Good 80000000, mk ''LCP'' 2000 Good 80000001,
                mk ''TTFB'' 900 NeedsImprovement 80000002, mk ''FID'' 400 Poor 80000003]"
    by (simp add: last_day_def getMetrics_def store_of_def vitals_def mk_def)
  have 1: "present (last_day (store_of vitals) 90000000) ''LCP''"
    and 2: "latest_rating (last_day (store_of vitals) 90000000) ''LCP'' = Good"
    and 3: "present (last_day (store_of vitals) 90000000) ''FID''"
    and 4: "latest_rating (last_day (store_of vitals) 90000000) ''FID'' = Poor"
    and 5: "\<not> present (last_day (store_of vitals) 90000000) ''CLS''"
    unfolding d by (simp_all add: present_def latest_rating_def mk_def)
  from getPerformanceScore_mean[of "store_of vitals" 90000000 0] 1 2 3 4 5
  show ?thesis by blast
qed

subsection \<open>Timestamps in the store\<close>










subsection \<open>Persistence and clearing\<close>

lemma loadEffect_failure:
  assumes "win s = Some w" and "tryLoad c (localStorage w) = Inl e"
  shows "loadEffect c s = s\<lparr>isLoading := False\<rparr>"
  using assms by (simp add: loadEffect_def)

lemma loadEffect_007_failure:
  assumes "tryLoad_007 (win s) = Inl e"
  shows "loadEffect_007 s = s\<lparr>isLoading := False\<rparr>"
  using assms by (simp add: loadEffect_007_def)

lemma tryLoad_failures:
  "disabled st \<Longrightarrow> tryLoad c st = Inl SecurityError"
  "\<not> disabled st \<Longrightarrow> items st (cfg_key c) = Some Unparseable \<Longrightarrow> tryLoad c st = Inl SyntaxError"
  by (simp_all add: tryLoad_def getItem_def)

lemma saveEffect_keeps_store:
  "metrics (saveEffect c s) = metrics s \<and> isLoading (saveEffect c s) = isLoading s"
  by (simp add: saveEffect_def split: option.splits sum.splits)

lemma saveEffect_007_keeps_store:
  "metrics (saveEffect_007 s) = metrics s \<and> isLoading (saveEffect_007 s) = isLoading s"
  by (simp add: saveEffect_007_def split: option.splits sum.splits)

lemma saveEffect_failure:
  assumes "win s = Some w" and "disabled (localStorage w) \<or> full (localStorage w)"
  shows "saveEffect c s = s"
  using assms by (auto simp: saveEffect_def setItem_def)

text \<open>
  \<^bold>\<open>C8\<close>. With storage blocked, \<^verbatim>\<open>clearMetrics\<close> lets the exception of
  \<^verbatim>\<open>localStorage.removeItem\<close> reach its caller, in both hooks: the call is not inside a
  \<^verbatim>\<open>try\<close>, unlike the storage calls of the load and save effects.
\<close>

theorem clearMetrics_throws:
  "fst (clearMetrics cfg0 (mounted blocked mixed)) = Some SecurityError
   \<and> fst (clearMetrics_007 (mounted blocked mixed)) = Some SecurityError"
  by (simp add: clearMetrics_def clearMetrics_007_def mounted_def blocked_def removeItem_def
      cfg_storage_def cfg0_def finalConfig_def DEFAULT_CONFIG_def override_def)

text \<open>
  \<^bold>\<open>C9\<close>. After a \<^verbatim>\<open>clearMetrics\<close> call that returned, \<^verbatim>\<open>getMetrics()\<close> returns the empty
  array and, when persistence is enabled, nothing is stored under the configured key; the
  save effect that follows the state change writes nothing back. (Also when the call threw,
  the store is empty.) The same holds for the hook of part-007 and its fixed key.
\<close>

theorem clearMetrics_then_getMetrics:
  assumes "clearMetrics c s = (None, s')"
  shows "getMetrics s' None None now = []
         \<and> (cfg_storage c \<longrightarrow> persisted s' (cfg_key c) = None)
         \<and> saveEffect c s' = s'
         \<and> getMetrics (snd (clearMetrics c s)) None None now = []
         \<and> (\<forall>s7. clearMetrics_007 s = (None, s7) \<longrightarrow>
               getMetrics_007 s7 None None now = []
               \<and> persisted s7 METRIC_STORAGE_KEY = None
               \<and> saveEffect_007 s7 = s7)"
proof -
  have m: "metrics s' = []"
    using assms by (auto simp: clearMetrics_def Let_def split: option.splits if_splits sum.splits)
  have p: "persisted s' (cfg_key c) = None" if "cfg_storage c"
    using assms that
    by (auto simp: clearMetrics_def Let_def persisted_def removeItem_def
             split: option.splits if_splits sum.splits)
  have sv: "saveEffect c s' = s'"
    by (simp add: saveEffect_def m split: option.splits)
  have q: "getMetrics (snd (clearMetrics c s)) None None now = []"
    by (simp add: assms getMetrics_def m)
  have 7: "getMetrics_007 s7 None None now = [] \<and> persisted s7 METRIC_STORAGE_KEY = None
           \<and> saveEffect_007 s7 = s7"
    if "clearMetrics_007 s = (None, s7)" for s7
  proof -
    have m7: "metrics s7 = []"
      using that by (auto simp: clearMetrics_007_def Let_def split: option.splits sum.splits)
    have "persisted s7 METRIC_STORAGE_KEY = None"
      using that
      by (auto simp: clearMetrics_007_def Let_def persisted_def removeItem_def
               split: option.splits if_splits sum.splits)
    then show ?thesis by (simp add: getMetrics_007_def saveEffect_007_def m7)
  qed
  from m p sv q 7 show ?thesis by (simp add: getMetrics_def)
qed

theorem clearMetrics_then_getMetrics_witness:
  "persisted (mounted working mixed) (cfg_key cfg0) = Some (MetricArray ggppp)
   \<and> getMetrics (mounted working mixed) None None 0 = mixed
   \<and> cfg_storage cfg0
   \<and> fst (clearMetrics cfg0 (mounted working mixed)) = None
   \<and> getMetrics (snd (clearMetrics cfg0 (mounted working mixed))) None None 0 = []
   \<and> persisted (snd (clearMetrics cfg0 (mounted working mixed))) (cfg_key cfg0) = None
   \<and> fst (clearMetrics_007 (mounted working mixed)) = None
   \<and> persisted (snd (clearMetrics_007 (mounted working mixed))) METRIC_STORAGE_KEY = None"
proof -
  have k: "cfg_key cfg0 = ''portfolio_performance_metrics''" and st: "cfg_storage cfg0"
    by (simp_all add: cfg_key_def cfg_storage_def cfg0_def finalConfig_def DEFAULT_CONFIG_def
        override_def)
  have b: "persisted (mounted working mixed) (cfg_key cfg0) = Some (MetricArray ggppp)"
    by (simp add: k persisted_def mounted_def working_def)
  have g: "getMetrics (mounted working mixed) None None 0 = mixed"
    by (simp add: getMetrics_def mounted_def)
  have r: "fst (clearMetrics cfg0 (mounted working mixed)) = None"
    by (simp add: clearMetrics_def st mounted_def working_def removeItem_def)
  have r7: "fst (clearMetrics_007 (mounted working mixed)) = None"
    by (simp add: clearMetrics_007_def mounted_def working_def removeItem_def)
  have a: "clearMetrics cfg0 (mounted working mixed)
             = (None, snd (clearMetrics cfg0 (mounted working mixed)))"
    using r by (simp add: prod_eq_iff)
  have a7: "clearMetrics_007 (mounted working mixed)
             = (None, snd (clearMetrics_007 (mounted working mixed)))"
    using r7 by (simp add: prod_eq_iff)
  from clearMetrics_then_getMetrics[OF a, of 0] a7 st b g r r7
  show ?thesis by blast
qed

text \<open>
  \<^bold>\<open>C10\<close>. The two hooks agree: \<^verbatim>\<open>getAverages\<close> of part-007 throws exactly when that of
  part-006 does, and otherwise returns the same names with the same average, count, rating
  and trend; \<^verbatim>\<open>getPerformanceScore\<close> returns the same result in both; and so does the
  query \<^verbatim>\<open>getMetrics\<close> both are built on.
\<close>

theorem hooks_agree:
  "getAverages_007 s tr now
     = map_sum id (map (\<lambda>(n, e). (n, common e))) (getAverages s tr now)
   \<and> getPerformanceScore_007 s now = getPerformanceScore s now
   \<and> getMetrics_007 s n tr now = getMetrics s n tr now"
proof -
  have e: "entry_007 n l = common (entry n l)" for n l
    by (simp add: entry_007_def common_def entry_def entry_average_007_eq entry_rating_007_eq
        entry_trend_007_eq)
  have "getAverages_007 s tr now
          = map_sum id (map (\<lambda>(n, e). (n, common e))) (getAverages s tr now)"
    by (cases "group_by_name [] (getMetrics s None tr now)")
       (simp_all add: getAverages_007_def getAverages_def getMetrics_007_eq
          group_by_name_007_eq e case_prod_unfold)
  then show ?thesis by (simp add: getPerformanceScore_007_eq getMetrics_007_eq)
qed

end
